theory Spec2Isabelle
  imports Complex_Main
begin

section \<open>Numbers\<close>

text \<open>
  The simulation of \<^verbatim>\<open>cry2_trpc1_simulation.tsx\<close> computes with JavaScript numbers
  (IEEE 754 doubles). A number is read here as the real number that is its value, and
  the inputs of the run are meant to be values of doubles.

  Rounding is written out where it decides how the run proceeds: in the quotient whose
  floor is the number of iterations, and in the product \<^verbatim>\<open>k_B * params.T\<close>, which is a
  divisor of the run and can round to zero. There \<open>fl\<close> gives the double nearest to a
  real number. The other operations are read without rounding: the positions and the
  statistics of the model are the exact values of the expressions that the source
  evaluates in doubles.

  A JavaScript division by zero gives \<^verbatim>\<open>NaN\<close> (for \<^verbatim>\<open>0/0\<close>) or an infinity, where HOL's
  \<open>v / 0\<close> is \<open>0\<close>. The divisions of the source whose divisor comes from the input
  (the number of samples, \<^verbatim>\<open>t_end\<close>, \<^verbatim>\<open>k_B_T\<close>) are therefore written with \<open>js_div\<close>,
  whose \<open>None\<close> stands for a number that is not finite; an operation on a number that
  is not finite gives a number that is not finite (\<open>map_option\<close>, \<open>Option.bind\<close>).
\<close>

definition js_div :: "real \<Rightarrow> real \<Rightarrow> real option" where
  "js_div v w = (if w = 0 then None else Some (v / w))"

subsection \<open>Rounding to a double\<close>

text \<open>
  Binary64, round to nearest, ties to even: a double is an integer multiple of a power of
  two, \<open>2\<^sup>e\<close> with \<open>e = \<lfloor>log\<^sub>2 |v|\<rfloor> - 52\<close> for a normal number and \<open>e = - 1074\<close> below
  \<open>2\<^sup>-\<^sup>1\<^sup>0\<^sup>2\<^sup>2\<close>, where the doubles are subnormal and a magnitude of at most \<open>2\<^sup>-\<^sup>1\<^sup>0\<^sup>7\<^sup>5\<close>
  rounds to zero. Overflow to an infinity is not part of \<open>fl\<close>; where it can occur,
  in the number of iterations, \<open>runSimulation\<close> writes out what follows from it.
\<close>

definition pow2 :: "int \<Rightarrow> real" where
  "pow2 e = (if 0 \<le> e then 2 ^ nat e else 1 / 2 ^ nat (- e))"

definition round_even :: "real \<Rightarrow> int" where
  "round_even w =
     (if w - of_int \<lfloor>w\<rfloor> < 1 / 2 \<or> (w - of_int \<lfloor>w\<rfloor> = 1 / 2 \<and> even \<lfloor>w\<rfloor>)
      then \<lfloor>w\<rfloor> else \<lfloor>w\<rfloor> + 1)"

definition ulp_exponent :: "real \<Rightarrow> int" where
  "ulp_exponent v = max (\<lfloor>log 2 \<bar>v\<bar>\<rfloor> - 52) (- 1074)"

definition fl :: "real \<Rightarrow> real" where
  "fl v =
     (if v = 0 then 0
      else of_int (round_even (v / pow2 (ulp_exponent v))) * pow2 (ulp_exponent v))"

section \<open>Parameters and physical constants\<close>

text \<open>The \<^verbatim>\<open>params\<close> state of the component (lines 9 to 15).\<close>

record params =
  T :: real
  B_field :: real
  F_mag :: real
  dt :: real
  t_end :: real

text \<open>The literal \<^verbatim>\<open>1.380649e-23\<close> is the double nearest to that number.\<close>

definition k_B :: real where
  "k_B = fl (1.380649 / 10 ^ 23)"

definition x_0 :: real where
  "x_0 = 1 / 10 ^ 9"

text \<open>
  \<^verbatim>\<open>k_B * params.T\<close>, rounded: for a temperature above zero and below about
  \<open>1.8 \<times> 10\<^sup>-\<^sup>3\<^sup>0\<^sup>1\<close> the product underflows to zero.
\<close>

definition k_B_T :: "params \<Rightarrow> real" where
  "k_B_T p = fl (k_B * T p)"

definition delta_U :: "params \<Rightarrow> real" where
  "delta_U p = 6 * k_B_T p"

definition a :: "params \<Rightarrow> real" where
  "a p = 24 * k_B_T p / (x_0 * x_0)"

definition b :: "params \<Rightarrow> real" where
  "b p = a p / (x_0 * x_0)"

definition gamma :: real where
  "gamma = 1 / 10 ^ 7"

text \<open>
  \<^verbatim>\<open>Math.floor(params.t_end / params.dt)\<close>: the floor of the quotient rounded to a
  double, which can be one more or one less than the floor of the exact quotient. For
  \<^verbatim>\<open>dt = 0\<close> the JavaScript quotient is \<^verbatim>\<open>Infinity\<close>, \<^verbatim>\<open>NaN\<close> or \<^verbatim>\<open>-Infinity\<close> as
  \<^verbatim>\<open>t_end\<close> is positive, zero or negative. The loop below compares \<^verbatim>\<open>i < n_steps\<close>,
  which never holds for the last two, as it never holds for the \<open>0\<close> that HOL's
  quotient gives; the first case is written out in \<open>runSimulation\<close>.
\<close>

definition n_steps :: "params \<Rightarrow> int" where
  "n_steps p = \<lfloor>fl (t_end p / dt p)\<rfloor>"

text \<open>
  \<^verbatim>\<open>Math.max(1, Math.floor(n_steps / 5000))\<close>. For a number of iterations up to \<open>2\<^sup>5\<^sup>3\<close>
  the rounded quotient is less than half of \<open>1/5000\<close> away from the exact one and has
  the same floor, the integer quotient.
\<close>

definition downsample :: "params \<Rightarrow> int" where
  "downsample p = max 1 (n_steps p div 5000)"

definition Phi_baseline :: real where
  "Phi_baseline = 0.25"

definition Phi_S :: real where
  "Phi_S = Phi_baseline + 0.05 * sin (2 * pi * 100 * 0)"

definition F_coupling :: "params \<Rightarrow> real" where
  "F_coupling p = F_mag p * (Phi_S - Phi_baseline)"

text \<open>The deterministic force of line 52, at the position \<open>v\<close>.\<close>

definition F_det :: "params \<Rightarrow> real \<Rightarrow> real" where
  "F_det p v = a p * v - b p * v * v * v + F_coupling p"

section \<open>The Euler-Maruyama loop\<close>

text \<open>
  The local variables that the loop of lines 47 to 75 updates. \<open>times'\<close> is the
  array \<^verbatim>\<open>times\<close> of the source.
\<close>

record sim_state =
  x :: real
  trajectory :: "real list"
  times' :: "real list"
  switchCount :: nat
  lastSign :: real

text \<open>The state before the loop (lines 35 to 39); \<^verbatim>\<open>Math.sign\<close> is \<open>sgn\<close>.\<close>

definition init_state :: sim_state where
  "init_state =
     \<lparr>x = - x_0, trajectory = [], times' = [], switchCount = 0, lastSign = sgn (- x_0)\<rparr>"

text \<open>
  One iteration of the loop, for the counter \<open>i\<close>. \<^verbatim>\<open>randomGaussian()\<close> is called once
  in every iteration and nowhere else, and draws from \<^verbatim>\<open>Math.random\<close>: the value that its
  call in iteration \<open>i\<close> returns is \<open>noise i\<close>. The calls of \<^verbatim>\<open>setProgress\<close> only
  drive the progress bar and are left out.

  \<^verbatim>\<open>Math.sqrt\<close> of a negative number is \<^verbatim>\<open>NaN\<close>; the positions of this model are the
  exact values of those of the source when \<open>0 \<le> k_B_T p * dt p\<close>.
\<close>

definition body :: "params \<Rightarrow> (nat \<Rightarrow> real) \<Rightarrow> nat \<Rightarrow> sim_state \<Rightarrow> sim_state" where
  "body p noise i s =
     (let R = noise i;
          F = F_det p (x s);
          noise_term = sqrt (2 * k_B_T p * dt p / gamma) * R;
          s1 = s\<lparr>x := x s + (dt p / gamma) * F + noise_term\<rparr>;
          currentSign = sgn (x s1);
          s2 = (if currentSign \<noteq> lastSign s1 \<and> \<bar>x s1\<bar> > 0.1 * x_0
                then s1\<lparr>switchCount := switchCount s1 + 1, lastSign := currentSign\<rparr>
                else s1)
      in if int i mod downsample p = 0
         then s2\<lparr>trajectory := trajectory s2 @ [x s2 / x_0],
                 times' := times' s2 @ [real i * dt p * 10 ^ 6]\<rparr>
         else s2)"

text \<open>\<^verbatim>\<open>for (let i = 0; i < n_steps; i++)\<close>, entered with the counter at \<open>i\<close>.\<close>

function for_loop :: "params \<Rightarrow> (nat \<Rightarrow> real) \<Rightarrow> int \<Rightarrow> nat \<Rightarrow> sim_state \<Rightarrow> sim_state" where
  "for_loop p noise n i s =
     (if int i < n then for_loop p noise n (Suc i) (body p noise i s) else s)"
  by pat_completeness auto
termination
  by (relation "measure (\<lambda>(p, noise, n, i, s). nat (n - int i))") auto

declare for_loop.simps [simp del]

section \<open>Statistics\<close>

text \<open>Lines 78 to 80: \<^verbatim>\<open>reduce\<close> is a left fold.\<close>

definition mean_x :: "real list \<Rightarrow> real option" where
  "mean_x traj = js_div (foldl (\<lambda>acc v. acc + v) 0 traj) (real (length traj))"

definition variance :: "real list \<Rightarrow> real option" where
  "variance traj =
     Option.bind (mean_x traj)
       (\<lambda>m. js_div (foldl (\<lambda>acc v. acc + (v - m) ^ 2) 0 traj) (real (length traj)))"

definition std_dev :: "real list \<Rightarrow> real option" where
  "std_dev traj = map_option sqrt (variance traj)"

subsection \<open>Histogram (lines 86 to 99)\<close>

definition hist_bins :: nat where
  "hist_bins = 50"

definition x_min :: real where
  "x_min = - 2"

definition x_max :: real where
  "x_max = 2"

definition bin_width :: real where
  "bin_width = (x_max - x_min) / real hist_bins"

definition bin_of :: "real \<Rightarrow> int" where
  "bin_of val = \<lfloor>(val - x_min) / bin_width\<rfloor>"

text \<open>The callback of \<^verbatim>\<open>trajectory.forEach\<close>, on the array of counts.\<close>

definition count_sample :: "real \<Rightarrow> nat list \<Rightarrow> nat list" where
  "count_sample val h =
     (let bin = bin_of val
      in if bin \<ge> 0 \<and> bin < int hist_bins then h[nat bin := h ! nat bin + 1] else h)"

definition histogram :: "real list \<Rightarrow> nat list" where
  "histogram traj = fold count_sample traj (replicate hist_bins 0)"

record hist_entry =
  bin_x :: real
  density :: "real option"

text \<open>\<open>bin_x\<close> is the field \<^verbatim>\<open>x\<close> of an entry of \<^verbatim>\<open>histData\<close>.\<close>

definition hist_data :: "real list \<Rightarrow> hist_entry list" where
  "hist_data traj =
     map (\<lambda>(count, i).
            \<lparr>bin_x = x_min + (real i + 0.5) * bin_width,
             density = map_option (\<lambda>q. q / bin_width) (js_div (real count) (real (length traj)))\<rparr>)
       (zip (histogram traj) [0..<length (histogram traj)])"

section \<open>Power spectrum and signal-to-noise ratio\<close>

record spectrum_entry =
  freq :: real
  power' :: real

text \<open>The inner loop of lines 142 to 147: the pair is \<^verbatim>\<open>(real, imag)\<close>.\<close>

definition dft_sums :: "real list \<Rightarrow> nat \<Rightarrow> real \<times> real" where
  "dft_sums data k =
     fold (\<lambda>n (re, im).
             let angle = 2 * pi * real k * real n / real (length data)
             in (re + data ! n * cos angle, im - data ! n * sin angle))
       [0..<length data] (0, 0)"

definition spectrum_entry_at :: "real list \<Rightarrow> nat \<Rightarrow> spectrum_entry" where
  "spectrum_entry_at data k =
     (case dft_sums data k of
        (re, im) \<Rightarrow>
          \<lparr>freq = real k * 10,
           power' = log 10 ((re * re + im * im) / (real (length data) * real (length data))
                            + 1 / 10 ^ 10)\<rparr>)"

text \<open>
  \<^verbatim>\<open>for (let k = 0; k < N / 2; k++)\<close>: the bound \<^verbatim>\<open>N / 2\<close> is a quotient of numbers, not an
  integer division.
\<close>

function spectrum_loop :: "real list \<Rightarrow> nat \<Rightarrow> spectrum_entry list \<Rightarrow> spectrum_entry list" where
  "spectrum_loop data k spectrum =
     (if real k < real (length data) / 2
      then spectrum_loop data (Suc k) (spectrum @ [spectrum_entry_at data k])
      else spectrum)"
  by pat_completeness auto
termination
  by (relation "measure (\<lambda>(data, k, spectrum). length data - k)") auto

declare spectrum_loop.simps [simp del]

definition computeSimplePowerSpectrum :: "real list \<Rightarrow> spectrum_entry list" where
  "computeSimplePowerSpectrum data = take 100 (spectrum_loop data 0 [])"

text \<open>
  \<^verbatim>\<open>Math.max(...)\<close> of a list that is not empty is the fold of \<open>max\<close> from its first
  element.
\<close>

fun calculateSNR :: "spectrum_entry list \<Rightarrow> real" where
  "calculateSNR [] = 0"
| "calculateSNR (e # es) =
     (let signal = fold max (map power' es) (power' e);
          noise = foldl (\<lambda>acc s. acc + power' s) 0 (e # es) / real (length (e # es))
      in signal - noise)"

section \<open>The run\<close>

record chart_point =
  time :: real
  position :: real

record metrics =
  mean :: "real option"
  std :: "real option"
  switches :: nat
  rate :: "real option"
  barrier :: "real option"
  snr :: real

record results =
  chartData :: "chart_point list"
  histData :: "hist_entry list"
  spectrum :: "spectrum_entry list"
  metrics :: metrics

datatype error = InvalidParameter

text \<open>The loop of the run, from the initial state.\<close>

definition integrate :: "params \<Rightarrow> (nat \<Rightarrow> real) \<Rightarrow> sim_state" where
  "integrate p noise = for_loop p noise (n_steps p) 0 init_state"

text \<open>
  The callback of \<^verbatim>\<open>runSimulation\<close> (lines 26 to 126), with the value passed to
  \<^verbatim>\<open>setResults\<close> as its result. The source has no \<^verbatim>\<open>throw\<close>: no path of the model is an
  \<open>Inl\<close>. With \<^verbatim>\<open>dt = 0\<close> and \<^verbatim>\<open>0 < t_end\<close>, \<^verbatim>\<open>n_steps\<close> is \<^verbatim>\<open>Infinity\<close> and the loop does not
  end: \<open>None\<close>. Nor does it end when \<^verbatim>\<open>n_steps\<close> is above \<open>2\<^sup>5\<^sup>3\<close>, which includes a
  quotient that overflows to \<^verbatim>\<open>Infinity\<close>: the counter \<^verbatim>\<open>i\<close> is a double, \<^verbatim>\<open>i++\<close> leaves
  \<open>2\<^sup>5\<^sup>3\<close> unchanged, and \<^verbatim>\<open>i < n_steps\<close> holds for ever. Up to \<open>2\<^sup>5\<^sup>3\<close> the counter is
  exact. The metrics are the numbers that the source then renders with
  \<^verbatim>\<open>toExponential\<close> and \<^verbatim>\<open>toFixed\<close> for display.
\<close>

definition runSimulation :: "params \<Rightarrow> (nat \<Rightarrow> real) \<Rightarrow> (error + results) option" where
  "runSimulation p noise =
     (if (dt p = 0 \<and> 0 < t_end p) \<or> 2 ^ 53 < n_steps p then None
      else
        let s = integrate p noise;
            switch_rate = js_div (real (switchCount s)) (t_end p);
            chart = map (\<lambda>(t, v). \<lparr>time = t, position = v\<rparr>) (zip (times' s) (trajectory s));
            fft_size = min 1024 (length (trajectory s));
            spec = computeSimplePowerSpectrum (take fft_size (trajectory s))
        in Some (Inr \<lparr>chartData = take 2000 chart,
                      histData = hist_data (trajectory s),
                      spectrum = spec,
                      metrics = \<lparr>mean = mean_x (trajectory s),
                                 std = std_dev (trajectory s),
                                 switches = switchCount s,
                                 rate = switch_rate,
                                 barrier = js_div (delta_U p) (k_B_T p),
                                 snr = calculateSNR spec\<rparr>\<rparr>))"

section \<open>Notions used to state the properties\<close>

text \<open>The state of the loop after its first \<open>k\<close> iterations.\<close>

definition state_after :: "params \<Rightarrow> (nat \<Rightarrow> real) \<Rightarrow> nat \<Rightarrow> sim_state" where
  "state_after p noise k = fold (body p noise) [0..<k] init_state"

text \<open>
  The constraints that the specification puts on \<open>SimulationParams\<close> (its sections 3
  and 7). The source checks none of them.
\<close>

definition valid_params :: "params \<Rightarrow> bool" where
  "valid_params p \<longleftrightarrow>
     0 < T p \<and> 0 \<le> B_field p \<and> 0 \<le> F_mag p \<and> 0 < dt p \<and> 0 < t_end p \<and> 0 < n_steps p"

text \<open>A sample is counted when its bin index is one of the 50 bins.\<close>

definition binned :: "real \<Rightarrow> bool" where
  "binned val \<longleftrightarrow> 0 \<le> bin_of val \<and> bin_of val < int hist_bins"

text \<open>
  The sum over the bins of density times bin width; it is not finite (\<open>None\<close>) when a
  density is not.
\<close>

definition density_mass :: "hist_entry list \<Rightarrow> real option" where
  "density_mass h =
     map_option (\<lambda>ds. sum_list (map (\<lambda>d. d * bin_width) ds)) (those (map density h))"

text \<open>
  The spectrum entry of index \<open>k\<close> as the specification writes it (section 4.5), for
  the window \<open>data\<close>.
\<close>

definition spectrum_entry_spec :: "real list \<Rightarrow> nat \<Rightarrow> spectrum_entry" where
  "spectrum_entry_spec data k =
     \<lparr>freq = real k * 10,
      power' = log 10
        (((\<Sum>n<length data. data ! n * cos (2 * pi * real k * real n / real (length data))) ^ 2
          + (\<Sum>n<length data. data ! n * sin (2 * pi * real k * real n / real (length data))) ^ 2)
         / real (length data) ^ 2 + 1 / 10 ^ 10)\<rparr>"

text \<open>
  What a run without any iteration passes to \<^verbatim>\<open>setResults\<close>: no sample, 50 bins whose
  density is \<^verbatim>\<open>0/0\<close>, an empty spectrum, a mean and a deviation that are \<^verbatim>\<open>NaN\<close>.
\<close>

definition zero_step_results :: "params \<Rightarrow> results" where
  "zero_step_results p =
     \<lparr>chartData = [],
      histData =
        map (\<lambda>i. \<lparr>bin_x = x_min + (real i + 0.5) * bin_width, density = None\<rparr>) [0..<hist_bins],
      spectrum = [],
      metrics = \<lparr>mean = None, std = None, switches = 0, rate = js_div 0 (t_end p),
                 barrier = js_div (delta_U p) (k_B_T p), snr = 0\<rparr>\<rparr>"

text \<open>The barrier metric of an outcome that is a result.\<close>

definition barrier_of :: "(error + results) option \<Rightarrow> real option option" where
  "barrier_of outcome =
     (case outcome of Some (Inr r) \<Rightarrow> Some (barrier (metrics r)) | _ \<Rightarrow> None)"

subsection \<open>Concrete inputs\<close>

text \<open>
  The initial value of \<^verbatim>\<open>params\<close> (lines 10 to 14); a literal is the double nearest to
  the number it writes.
\<close>

definition default_params :: params where
  "default_params =
     \<lparr>T = 310, B_field = fl (50 / 10 ^ 6), F_mag = fl (2 / 10 ^ 12), dt = fl (1 / 10 ^ 10),
      t_end = fl (1 / 100)\<rparr>"

text \<open>The same with another field and another coupling force.\<close>

definition other_field_params :: params where
  "other_field_params =
     \<lparr>T = 310, B_field = 0, F_mag = 1, dt = fl (1 / 10 ^ 10), t_end = fl (1 / 100)\<rparr>"

text \<open>The same with a total time of zero, as the input field for the total time allows.\<close>

definition zero_time_params :: params where
  "zero_time_params =
     \<lparr>T = 310, B_field = fl (50 / 10 ^ 6), F_mag = fl (2 / 10 ^ 12), dt = fl (1 / 10 ^ 10),
      t_end = 0\<rparr>"

text \<open>
  The same with a total time of \<^verbatim>\<open>7e-10\<close>: the quotient of the two doubles rounds to the
  double just below 7.
\<close>

definition seven_step_params :: params where
  "seven_step_params =
     \<lparr>T = 310, B_field = fl (50 / 10 ^ 6), F_mag = fl (2 / 10 ^ 12), dt = fl (1 / 10 ^ 10),
      t_end = fl (7 / 10 ^ 10)\<rparr>"

text \<open>The same with the least temperature above zero that a double can hold.\<close>

definition cold_params :: params where
  "cold_params =
     \<lparr>T = 1 / 2 ^ 1074, B_field = fl (50 / 10 ^ 6), F_mag = fl (2 / 10 ^ 12),
      dt = fl (1 / 10 ^ 10), t_end = fl (1 / 100)\<rparr>"

definition no_noise :: "nat \<Rightarrow> real" where
  "no_noise i = 0"

text \<open>A sequence that differs from \<open>no_noise\<close> only after the last draw of a default run.\<close>

definition late_noise :: "nat \<Rightarrow> real" where
  "late_noise i = (if i < 100000000 then 0 else 1)"

text \<open>
  A run of two steps, with the two draws that take the particle from \<open>- x_0\<close> to
  \<open>x_0 / 20\<close> and then to \<open>- x_0 / 20\<close>.
\<close>

definition hysteresis_params :: params where
  "hysteresis_params =
     \<lparr>T = 310, B_field = fl (50 / 10 ^ 6), F_mag = fl (2 / 10 ^ 12), dt = fl (1 / 10 ^ 10),
      t_end = fl (2 / 10 ^ 10)\<rparr>"

definition hysteresis_noise :: "nat \<Rightarrow> real" where
  "hysteresis_noise i =
     (if i = 0 then 21 / 20 * x_0
      else - (x_0 / 10) - dt hysteresis_params / gamma * F_det hysteresis_params (x_0 / 20))
     / sqrt (2 * k_B_T hysteresis_params * dt hysteresis_params / gamma)"

text \<open>
  A run of 10000 steps, of which every second one is sampled, with a draw of zero in the
  sampled step 0 and, in the step 1 that is not sampled, the draw that takes the particle
  from \<open>- x_0\<close> to \<open>x_0\<close>.
\<close>

definition stride_params :: params where
  "stride_params =
     \<lparr>T = 310, B_field = fl (50 / 10 ^ 6), F_mag = fl (2 / 10 ^ 12), dt = fl (1 / 10 ^ 10),
      t_end = fl (1 / 10 ^ 6)\<rparr>"

definition crossing_noise :: "nat \<Rightarrow> real" where
  "crossing_noise i =
     (if i = 1 then 2 * x_0 / sqrt (2 * k_B_T stride_params * dt stride_params / gamma) else 0)"

section \<open>Rounding\<close>

lemma pow2_powr: "pow2 e = 2 powr (of_int e)"
  by (simp add: pow2_def powr_real_of_int inverse_eq_divide)

lemma pow2_pos: "0 < pow2 e"
  by (simp add: pow2_powr)

lemma floor_log2_eq:
  assumes "pow2 k \<le> \<bar>v\<bar>" and "\<bar>v\<bar> < pow2 (k + 1)"
  shows "\<lfloor>log 2 \<bar>v\<bar>\<rfloor> = k"
proof -
  have pos: "0 < \<bar>v\<bar>" using assms(1) pow2_pos [of k] by linarith
  have "of_int k \<le> log 2 \<bar>v\<bar>"
    using assms(1) pos by (simp add: le_log_iff pow2_powr)
  moreover have "log 2 \<bar>v\<bar> < of_int k + 1"
    using assms(2) pos by (simp add: log_less_iff pow2_powr)
  ultimately show ?thesis by (simp add: floor_unique)
qed

lemma round_even_unique:
  assumes "\<bar>w - of_int m\<bar> < 1 / 2"
  shows "round_even w = m"
proof (cases "of_int m \<le> w")
  case True
  then have "\<lfloor>w\<rfloor> = m" using assms by (intro floor_unique) auto
  then show ?thesis using assms True by (simp add: round_even_def)
next
  case False
  then have "\<lfloor>w\<rfloor> = m - 1" using assms by (intro floor_unique) auto
  then show ?thesis using assms False by (auto simp add: round_even_def)
qed

text \<open>
  The double nearest to a number in the normal range, from its binary exponent \<open>k\<close>
  and the integer \<open>m\<close> nearest to its significand.
\<close>

lemma fl_eval:
  assumes "pow2 k \<le> \<bar>v\<bar>" and "\<bar>v\<bar> < pow2 (k + 1)" and "- 1022 \<le> k"
    and "\<bar>v / pow2 (k - 52) - of_int m\<bar> < 1 / 2"
  shows "fl v = of_int m * pow2 (k - 52)"
proof -
  have "v \<noteq> 0" using assms(1) pow2_pos [of k] by auto
  moreover have "ulp_exponent v = k - 52"
    using assms(3) by (simp add: ulp_exponent_def floor_log2_eq [OF assms(1,2)])
  ultimately show ?thesis
    using round_even_unique [OF assms(4)] by (simp add: fl_def)
qed

lemma fl_0: "fl 0 = 0"
  by (simp add: fl_def)

lemma round_even_0_iff: "round_even w = 0 \<longleftrightarrow> \<bar>w\<bar> \<le> 1 / 2"
proof
  assume "round_even w = 0"
  then show "\<bar>w\<bar> \<le> 1 / 2"
    unfolding round_even_def by (auto split: if_splits) linarith+
next
  assume le: "\<bar>w\<bar> \<le> 1 / 2"
  consider "0 \<le> w" | "w < 0" by linarith
  then show "round_even w = 0"
  proof cases
    case 1
    then have "\<lfloor>w\<rfloor> = 0" using le by (intro floor_unique) auto
    then show ?thesis using le 1 by (auto simp add: round_even_def)
  next
    case 2
    then have "\<lfloor>w\<rfloor> = - 1" using le by (intro floor_unique) auto
    then show ?thesis using le 2 by (auto simp add: round_even_def)
  qed
qed

text \<open>Underflow: a number rounds to zero exactly when its magnitude is at most \<open>2\<^sup>-\<^sup>1\<^sup>0\<^sup>7\<^sup>5\<close>.\<close>

lemma fl_eq_0_iff: "fl v = 0 \<longleftrightarrow> \<bar>v\<bar> \<le> 1 / 2 ^ 1075"
proof (cases "v = 0")
  case True
  then show ?thesis by (simp add: fl_def)
next
  case False
  let ?e = "ulp_exponent v"
  have e: "- 1074 \<le> ?e" by (simp add: ulp_exponent_def)
  have "fl v = 0 \<longleftrightarrow> \<bar>v / pow2 ?e\<bar> \<le> 1 / 2"
    using False pow2_pos [of ?e] by (simp add: fl_def round_even_0_iff)
  also have "\<dots> \<longleftrightarrow> \<bar>v\<bar> \<le> pow2 ?e / 2"
    using pow2_pos [of ?e] by (simp add: field_simps abs_mult)
  also have "\<dots> \<longleftrightarrow> \<bar>v\<bar> \<le> 1 / 2 ^ 1075"
  proof (cases "?e = - 1074")
    case True
    then show ?thesis by (simp add: pow2_def)
  next
    case above: False
    then have big: "?e = \<lfloor>log 2 \<bar>v\<bar>\<rfloor> - 52" and gt: "- 1074 < ?e"
      using e by (auto simp add: ulp_exponent_def max_def split: if_splits)
    have "of_int (\<lfloor>log 2 \<bar>v\<bar>\<rfloor>) \<le> log 2 \<bar>v\<bar>" by simp
    then have "2 powr (of_int \<lfloor>log 2 \<bar>v\<bar>\<rfloor>) \<le> \<bar>v\<bar>"
      using False le_log_iff [of 2 "\<bar>v\<bar>" "of_int \<lfloor>log 2 \<bar>v\<bar>\<rfloor>"] by simp
    then have "2 powr (of_int (?e + 52)) \<le> \<bar>v\<bar>"
      by (simp add: big)
    then have lb: "pow2 (?e + 52) \<le> \<bar>v\<bar>" by (simp add: pow2_powr)
    have half: "pow2 ?e / 2 < pow2 (?e + 52)"
      by (simp add: pow2_powr powr_add)
    then have n1: "\<not> \<bar>v\<bar> \<le> pow2 ?e / 2" using lb by linarith
    have "pow2 (- 1074) \<le> pow2 ?e"
      using gt by (simp add: pow2_powr)
    then have "1 / 2 ^ 1075 < pow2 (?e + 52)"
      using half by (simp add: pow2_def [of "- 1074"])
    then have "\<not> \<bar>v\<bar> \<le> 1 / 2 ^ 1075" using lb by linarith
    with n1 show ?thesis by simp
  qed
  finally show ?thesis .
qed

subsection \<open>The doubles of the literals\<close>

lemma k_B_value: "k_B = 4698105096070268 / 2 ^ 128"
  unfolding k_B_def
  using fl_eval [of "- 76" "1.380649 / 10 ^ 23" 4698105096070268] by (simp add: pow2_def)

lemma fl_1e10: "fl (1 / 10 ^ 10) = 7737125245533627 / 2 ^ 86"
  using fl_eval [of "- 34" "1 / 10 ^ 10" 7737125245533627] by (simp add: pow2_def)

lemma fl_2e10: "fl (2 / 10 ^ 10) = 7737125245533627 / 2 ^ 85"
  using fl_eval [of "- 33" "2 / 10 ^ 10" 7737125245533627] by (simp add: pow2_def)


lemma fl_1e6: "fl (1 / 10 ^ 6) = 4722366482869645 / 2 ^ 72"
  using fl_eval [of "- 20" "1 / 10 ^ 6" 4722366482869645] by (simp add: pow2_def)

lemma fl_1e2: "fl (1 / 100) = 5764607523034235 / 2 ^ 59"
  using fl_eval [of "- 7" "1 / 100" 5764607523034235] by (simp add: pow2_def)

lemma fl_50e6: "fl (50 / 10 ^ 6) = 7378697629483821 / 2 ^ 67"
  using fl_eval [of "- 15" "50 / 10 ^ 6" 7378697629483821] by (simp add: pow2_def)

lemma fl_2e12: "fl (2 / 10 ^ 12) = 4951760157141521 / 2 ^ 91"
  using fl_eval [of "- 39" "2 / 10 ^ 12" 4951760157141521] by (simp add: pow2_def)

subsection \<open>The numbers of iterations of the concrete inputs\<close>

lemma quotient_default:
  "fl ((5764607523034235 / 2 ^ 59) / (7737125245533627 / 2 ^ 86)) = 100000000"
  using fl_eval [of 26 "(5764607523034235 / 2 ^ 59) / (7737125245533627 / 2 ^ 86)"
      6710886400000000]
  by (simp add: pow2_def)


lemma quotient_two:
  "fl ((7737125245533627 / 2 ^ 85) / (7737125245533627 / 2 ^ 86)) = 2"
  using fl_eval [of 1 2 4503599627370496] by (simp add: pow2_def)

lemma quotient_stride:
  "fl ((4722366482869645 / 2 ^ 72) / (7737125245533627 / 2 ^ 86)) = 10000"
  using fl_eval [of 13 "(4722366482869645 / 2 ^ 72) / (7737125245533627 / 2 ^ 86)"
      5497558138880000]
  by (simp add: pow2_def)

lemma n_steps_default: "n_steps default_params = 100000000"
  by (simp only: n_steps_def default_params_def params.select_convs fl_1e2 fl_1e10
      quotient_default) simp

lemma n_steps_other_field: "n_steps other_field_params = 100000000"
  by (simp only: n_steps_def other_field_params_def params.select_convs fl_1e2 fl_1e10
      quotient_default) simp

lemma n_steps_cold: "n_steps cold_params = 100000000"
  by (simp only: n_steps_def cold_params_def params.select_convs fl_1e2 fl_1e10
      quotient_default) simp


lemma n_steps_hysteresis: "n_steps hysteresis_params = 2"
  by (simp only: n_steps_def hysteresis_params_def params.select_convs fl_2e10 fl_1e10
      quotient_two) simp

lemma n_steps_stride: "n_steps stride_params = 10000"
  by (simp only: n_steps_def stride_params_def params.select_convs fl_1e6 fl_1e10
      quotient_stride) simp

lemma n_steps_zero_time: "n_steps zero_time_params = 0"
  by (simp add: zero_time_params_def n_steps_def fl_0)

lemma dt_positive:
  "0 < dt default_params" "0 < dt other_field_params" "0 < dt zero_time_params"
  "0 < dt seven_step_params" "0 < dt cold_params" "0 < dt hysteresis_params"
  "0 < dt stride_params"
  by (simp_all only: default_params_def other_field_params_def zero_time_params_def
      seven_step_params_def cold_params_def hysteresis_params_def stride_params_def
      params.select_convs fl_1e10) simp_all

lemma valid_default: "valid_params default_params"
  unfolding valid_params_def n_steps_default
  using dt_positive(1)
  by (simp only: default_params_def params.select_convs fl_1e2 fl_1e10 fl_50e6 fl_2e12) simp

lemma valid_other_field: "valid_params other_field_params"
  unfolding valid_params_def n_steps_other_field
  by (simp only: other_field_params_def params.select_convs fl_1e2 fl_1e10) simp


lemma valid_cold: "valid_params cold_params"
  unfolding valid_params_def n_steps_cold
  by (simp only: cold_params_def params.select_convs fl_1e2 fl_1e10 fl_50e6 fl_2e12) simp

lemma k_B_T_310: "fl (k_B * 310) \<noteq> 0"
  by (simp add: fl_eq_0_iff k_B_value)

lemma k_B_T_cold: "k_B_T cold_params = 0"
  by (simp add: k_B_T_def cold_params_def fl_eq_0_iff k_B_value)

section \<open>The loop as a fold\<close>

lemma for_loop_fold: "for_loop p noise n i s = fold (body p noise) [i..<nat n] s"
proof (induction p noise n i s rule: for_loop.induct)
  case (1 p noise n i s)
  show ?case
  proof (cases "int i < n")
    case True
    then have "[i..<nat n] = i # [Suc i..<nat n]"
      by (simp add: upt_conv_Cons)
    with True 1 show ?thesis
      by (simp add: for_loop.simps [of p noise n i s])
  next
    case False
    then show ?thesis
      by (simp add: for_loop.simps [of p noise n i s])
  qed
qed

lemma state_after_0: "state_after p noise 0 = init_state"
  by (simp add: state_after_def)

lemma state_after_Suc: "state_after p noise (Suc k) = body p noise k (state_after p noise k)"
  by (simp add: state_after_def)

lemma integrate_state_after: "integrate p noise = state_after p noise (nat (n_steps p))"
  by (simp add: integrate_def state_after_def for_loop_fold)

lemma integrate_no_steps: "n_steps p \<le> 0 \<Longrightarrow> integrate p noise = init_state"
  by (simp add: integrate_def for_loop.simps)

lemma x_body:
  "x (body p noise i s) =
     x s + (dt p / gamma) * F_det p (x s) + sqrt (2 * k_B_T p * dt p / gamma) * noise i"
  by (simp add: body_def Let_def)

lemma F_coupling_0: "F_coupling p = 0"
  by (simp add: F_coupling_def Phi_S_def)

lemma runSimulation_returns:
  assumes "dt p \<noteq> 0 \<or> t_end p \<le> 0" and "n_steps p \<le> 2 ^ 53"
  shows "\<exists>r. runSimulation p noise = Some (Inr r)"
proof -
  have "\<not> ((dt p = 0 \<and> 0 < t_end p) \<or> 2 ^ 53 < n_steps p)"
    using assms by auto
  then show ?thesis
    by (simp add: runSimulation_def Let_def)
qed

lemma default_returns: "\<exists>r. runSimulation default_params noise = Some (Inr r)"
  using dt_positive(1) by (intro runSimulation_returns) (simp_all add: n_steps_default)



lemma cold_returns: "\<exists>r. runSimulation cold_params noise = Some (Inr r)"
  using dt_positive(5) by (intro runSimulation_returns) (simp_all add: n_steps_cold)

section \<open>The coupling term\<close>

text \<open>
  C3. The coupling term of the deterministic force is the same at every step and is
  zero: \<open>Phi_S\<close> is evaluated once, at the instant 0, where it is \<open>Phi_baseline\<close>, so
  that the deterministic force at a position \<open>v\<close> is \<open>a v - b v\<^sup>3\<close>, for every
  parameter record.
\<close>

theorem coupling_force_zero:
  "Phi_S = Phi_baseline \<and> F_coupling p = 0 \<and> F_det p v = a p * v - b p * v ^ 3"
  by (simp add: F_det_def F_coupling_def Phi_S_def power3_eq_cube mult.assoc)

section \<open>The integrator\<close>



section \<open>Switch detection\<close>

lemma switchCount_body:
  "\<bar>x (body p noise i s)\<bar> \<le> 0.1 * x_0 \<Longrightarrow> switchCount (body p noise i s) = switchCount s"
  by (auto simp add: body_def Let_def split: if_splits)

lemma switchCount_state_after:
  assumes "\<forall>k. 1 \<le> k \<and> int k \<le> n_steps p \<longrightarrow> \<bar>x (state_after p noise k)\<bar> \<le> 0.1 * x_0"
  shows "k \<le> nat (n_steps p) \<Longrightarrow> switchCount (state_after p noise k) = 0"
proof (induction k)
  case 0
  show ?case by (simp add: state_after_0 init_state_def)
next
  case (Suc k)
  have "\<bar>x (state_after p noise (Suc k))\<bar> \<le> 0.1 * x_0"
    using assms Suc.prems by (simp add: le_nat_iff del: of_nat_Suc)
  then have "switchCount (state_after p noise (Suc k)) = switchCount (state_after p noise k)"
    unfolding state_after_Suc by (rule switchCount_body)
  with Suc show ?case by simp
qed

lemma F_det_left_well: "F_det p (- x_0) = 0"
  by (simp add: F_det_def F_coupling_0 b_def x_0_def)

lemma hysteresis_sigma: "sqrt (2 * k_B_T hysteresis_params * dt hysteresis_params / gamma) \<noteq> 0"
proof -
  have "k_B_T hysteresis_params \<noteq> 0"
    using k_B_T_310 by (simp add: k_B_T_def hysteresis_params_def)
  then show ?thesis
    using dt_positive(6) by (simp add: gamma_def)
qed

lemma stride_sigma: "sqrt (2 * k_B_T stride_params * dt stride_params / gamma) \<noteq> 0"
proof -
  have "k_B_T stride_params \<noteq> 0"
    using k_B_T_310 by (simp add: k_B_T_def stride_params_def)
  then show ?thesis
    using dt_positive(7) by (simp add: gamma_def)
qed

lemma hysteresis_x1: "x (state_after hysteresis_params hysteresis_noise (Suc 0)) = x_0 / 20"
  using hysteresis_sigma
  by (simp add: state_after_Suc state_after_0 x_body init_state_def F_det_left_well
      hysteresis_noise_def)

lemma hysteresis_x2: "x (state_after hysteresis_params hysteresis_noise 2) = - (x_0 / 20)"
proof -
  have "state_after hysteresis_params hysteresis_noise 2 =
      body hysteresis_params hysteresis_noise (Suc 0)
        (state_after hysteresis_params hysteresis_noise (Suc 0))"
    by (simp add: numeral_2_eq_2 state_after_Suc)
  then show ?thesis
    using hysteresis_sigma
    by (simp add: x_body hysteresis_x1 hysteresis_noise_def)
qed

lemma detection_body:
  "switchCount (body p noise i s) =
     (if sgn (x (body p noise i s)) \<noteq> lastSign s \<and> 0.1 * x_0 < \<bar>x (body p noise i s)\<bar>
      then switchCount s + 1 else switchCount s)"
  "lastSign (body p noise i s) =
     (if sgn (x (body p noise i s)) \<noteq> lastSign s \<and> 0.1 * x_0 < \<bar>x (body p noise i s)\<bar>
      then sgn (x (body p noise i s)) else lastSign s)"
  by (simp_all add: body_def Let_def)

lemma trajectory_body:
  "trajectory (body p noise i s) =
     (if int i mod downsample p = 0 then trajectory s @ [x (body p noise i s) / x_0]
      else trajectory s)"
  by (simp add: body_def Let_def)

lemma downsample_stride: "downsample stride_params = 2"
  by (simp add: downsample_def n_steps_stride)

lemma stride_state_1:
  "x (state_after stride_params crossing_noise (Suc 0)) = - x_0"
  "lastSign (state_after stride_params crossing_noise (Suc 0)) = - 1"
  "switchCount (state_after stride_params crossing_noise (Suc 0)) = 0"
  "trajectory (state_after stride_params crossing_noise (Suc 0)) = [- 1]"
proof -
  show x1: "x (state_after stride_params crossing_noise (Suc 0)) = - x_0"
    by (simp add: state_after_Suc state_after_0 x_body init_state_def F_det_left_well
        crossing_noise_def)
  have x0: "x_0 \<noteq> 0" "0 < x_0" by (simp_all add: x_0_def)
  show "lastSign (state_after stride_params crossing_noise (Suc 0)) = - 1"
    using x1 x0 unfolding state_after_Suc
    by (simp add: detection_body state_after_0 init_state_def)
  show "switchCount (state_after stride_params crossing_noise (Suc 0)) = 0"
    using x1 x0 unfolding state_after_Suc
    by (simp add: detection_body state_after_0 init_state_def)
  show "trajectory (state_after stride_params crossing_noise (Suc 0)) = [- 1]"
    using x1 x0 unfolding state_after_Suc
    by (simp add: trajectory_body downsample_stride state_after_0 init_state_def)
qed

lemma stride_x2: "x (state_after stride_params crossing_noise 2) = x_0"
proof -
  have "state_after stride_params crossing_noise 2 =
      body stride_params crossing_noise (Suc 0) (state_after stride_params crossing_noise (Suc 0))"
    by (simp add: numeral_2_eq_2 state_after_Suc)
  then show ?thesis
    using stride_sigma
    by (simp add: x_body stride_state_1 F_det_left_well crossing_noise_def)
qed

text \<open>
  C6. When the position after every step of the run is within \<open>0.1 x_0\<close> of zero, the
  switch count at the end of the loop, which is the one reported, is 0, whatever the
  signs of these positions. The test is made in every iteration, sampled or not, on the
  position that the iteration has just computed and on the \<^verbatim>\<open>lastSign\<close> of the loop: a
  switch is counted, and \<^verbatim>\<open>lastSign\<close> updated, exactly when the sign of that position
  differs from \<^verbatim>\<open>lastSign\<close> and its magnitude is above \<open>0.1 x_0\<close>. The downsampled
  trajectory is not read.
\<close>

theorem hysteresis_no_switch:
  "((\<forall>k. 1 \<le> k \<and> int k \<le> n_steps p \<longrightarrow> \<bar>x (state_after p noise k)\<bar> \<le> 0.1 * x_0) \<longrightarrow>
      switchCount (integrate p noise) = 0)
   \<and> (\<forall>r. runSimulation p noise = Some (Inr r) \<longrightarrow>
         switches (metrics r) = switchCount (integrate p noise))
   \<and> switchCount (body p noise i s) =
       (if sgn (x (body p noise i s)) \<noteq> lastSign s \<and> 0.1 * x_0 < \<bar>x (body p noise i s)\<bar>
        then switchCount s + 1 else switchCount s)
   \<and> lastSign (body p noise i s) =
       (if sgn (x (body p noise i s)) \<noteq> lastSign s \<and> 0.1 * x_0 < \<bar>x (body p noise i s)\<bar>
        then sgn (x (body p noise i s)) else lastSign s)
   \<and> x (body p noise i s) =
       x s + (dt p / gamma) * F_det p (x s) + sqrt (2 * k_B_T p * dt p / gamma) * noise i"
proof -
  have "switchCount (integrate p noise) = 0"
    if "\<forall>k. 1 \<le> k \<and> int k \<le> n_steps p \<longrightarrow> \<bar>x (state_after p noise k)\<bar> \<le> 0.1 * x_0"
    unfolding integrate_state_after
    by (rule switchCount_state_after [OF that]) simp
  moreover have "\<forall>r. runSimulation p noise = Some (Inr r) \<longrightarrow>
         switches (metrics r) = switchCount (integrate p noise)"
    by (auto simp add: runSimulation_def Let_def split: if_splits)
  ultimately show ?thesis
    using detection_body [of p noise i s] x_body [of p noise i s] by blast
qed

text \<open>
  A run of two steps that crosses zero twice inside the band: negative, positive,
  negative, and no switch counted. And a run with a stride of 2 whose step 1, which is
  not sampled, takes the particle from \<open>- x_0\<close> to \<open>x_0\<close>: the switch is counted, and
  the trajectory holds the one sample of step 0.
\<close>

theorem hysteresis_no_switch_witness:
  "n_steps hysteresis_params = 2
   \<and> \<bar>x (state_after hysteresis_params hysteresis_noise (Suc 0))\<bar> \<le> 0.1 * x_0
   \<and> \<bar>x (state_after hysteresis_params hysteresis_noise 2)\<bar> \<le> 0.1 * x_0
   \<and> sgn (x (state_after hysteresis_params hysteresis_noise 0)) = - 1
   \<and> sgn (x (state_after hysteresis_params hysteresis_noise (Suc 0))) = 1
   \<and> sgn (x (state_after hysteresis_params hysteresis_noise 2)) = - 1
   \<and> switchCount (integrate hysteresis_params hysteresis_noise) = 0
   \<and> downsample stride_params = 2
   \<and> x (state_after stride_params crossing_noise 2) = x_0
   \<and> switchCount (state_after stride_params crossing_noise 2) = 1
   \<and> trajectory (state_after stride_params crossing_noise 2) = [- 1]"
proof -
  have band: "\<forall>k. 1 \<le> k \<and> int k \<le> n_steps hysteresis_params \<longrightarrow>
        \<bar>x (state_after hysteresis_params hysteresis_noise k)\<bar> \<le> 0.1 * x_0"
  proof (intro allI impI)
    fix k :: nat
    assume "1 \<le> k \<and> int k \<le> n_steps hysteresis_params"
    then have "k = Suc 0 \<or> k = 2" by (auto simp add: n_steps_hysteresis)
    then show "\<bar>x (state_after hysteresis_params hysteresis_noise k)\<bar> \<le> 0.1 * x_0"
      by (auto simp add: hysteresis_x1 hysteresis_x2 x_0_def)
  qed
  have in_band: "\<bar>x (state_after hysteresis_params hysteresis_noise (Suc 0))\<bar> \<le> 0.1 * x_0"
    "\<bar>x (state_after hysteresis_params hysteresis_noise 2)\<bar> \<le> 0.1 * x_0"
    by (simp_all add: hysteresis_x1 hysteresis_x2 x_0_def)
  have signs: "sgn (x (state_after hysteresis_params hysteresis_noise 0)) = - 1"
    "sgn (x (state_after hysteresis_params hysteresis_noise (Suc 0))) = 1"
    "sgn (x (state_after hysteresis_params hysteresis_noise 2)) = - 1"
    by (simp_all add: state_after_0 init_state_def hysteresis_x1 hysteresis_x2 x_0_def)
  have none: "switchCount (integrate hysteresis_params hysteresis_noise) = 0"
    using hysteresis_no_switch [of hysteresis_params hysteresis_noise] band by blast
  have two: "state_after stride_params crossing_noise 2 =
      body stride_params crossing_noise (Suc 0) (state_after stride_params crossing_noise (Suc 0))"
    by (simp add: numeral_2_eq_2 state_after_Suc)
  have x0: "0 < x_0" by (simp add: x_0_def)
  have "switchCount (state_after stride_params crossing_noise 2) =
      (if sgn (x (state_after stride_params crossing_noise 2))
            \<noteq> lastSign (state_after stride_params crossing_noise (Suc 0))
          \<and> 0.1 * x_0 < \<bar>x (state_after stride_params crossing_noise 2)\<bar>
       then switchCount (state_after stride_params crossing_noise (Suc 0)) + 1
       else switchCount (state_after stride_params crossing_noise (Suc 0)))"
    using hysteresis_no_switch [of stride_params crossing_noise "Suc 0"
        "state_after stride_params crossing_noise (Suc 0)"]
    unfolding two by blast
  then have counted: "switchCount (state_after stride_params crossing_noise 2) = 1"
    using x0 by (simp add: stride_x2 stride_state_1)
  have "trajectory (state_after stride_params crossing_noise 2) = [- 1]"
    unfolding two by (simp add: trajectory_body downsample_stride stride_state_1)
  with n_steps_hysteresis in_band signs none downsample_stride stride_x2 counted
  show ?thesis by blast
qed

section \<open>What the result depends on\<close>

lemma body_noise_cong: "noise1 i = noise2 i \<Longrightarrow> body p noise1 i = body p noise2 i"
  by (rule ext) (simp add: body_def)

lemma integrate_noise_cong:
  assumes "\<forall>i. int i < n_steps p \<longrightarrow> noise1 i = noise2 i"
  shows "integrate p noise1 = integrate p noise2"
proof -
  have "fold (body p noise1) [0..<nat (n_steps p)] s = fold (body p noise2) [0..<nat (n_steps p)] s"
    for s
    using assms by (intro fold_cong) (auto intro: body_noise_cong)
  then show ?thesis by (simp add: integrate_def for_loop_fold)
qed

lemma body_params_cong:
  assumes "T p1 = T p2" "dt p1 = dt p2" "t_end p1 = t_end p2"
  shows "body p1 noise i s = body p2 noise i s"
  using assms
  by (simp add: body_def Let_def F_det_def F_coupling_0 a_def b_def k_B_T_def downsample_def
      n_steps_def)

text \<open>
  C9. For valid parameters, two runs with the same parameters and with noise sequences
  that give the same value to every draw of the run return the same result: trajectory,
  histogram, spectrum and all metrics. The result is a function of the parameters and of
  the values drawn, and of nothing else.
\<close>

theorem run_deterministic:
  assumes "valid_params p" and "\<forall>i. int i < n_steps p \<longrightarrow> noise1 i = noise2 i"
  shows "runSimulation p noise1 = runSimulation p noise2"
  using integrate_noise_cong [OF assms(2)] by (simp add: runSimulation_def)

text \<open>
  Two sequences that agree on the \<open>10\<^sup>8\<close> draws of a default run and differ at the next
  index give the same result.
\<close>

theorem run_deterministic_witness:
  "valid_params default_params
   \<and> late_noise 100000000 \<noteq> no_noise 100000000
   \<and> runSimulation default_params no_noise = runSimulation default_params late_noise"
proof -
  have "\<forall>i. int i < n_steps default_params \<longrightarrow> no_noise i = late_noise i"
    by (simp add: n_steps_default no_noise_def late_noise_def)
  moreover have "late_noise 100000000 \<noteq> no_noise 100000000"
    by (simp add: no_noise_def late_noise_def)
  ultimately show ?thesis
    using run_deterministic [OF valid_default, of no_noise late_noise] valid_default by blast
qed

text \<open>
  C10. Two valid parameter records that differ at most in \<^verbatim>\<open>B_field\<close> and \<^verbatim>\<open>F_mag\<close>
  give, with the same noise sequence, the same result: \<^verbatim>\<open>B_field\<close> is not read by the
  run, and \<^verbatim>\<open>F_mag\<close> only in the coupling term, where it is multiplied by zero.
\<close>

theorem run_ignores_field_and_coupling:
  assumes "valid_params p1" and "valid_params p2"
    and "T p1 = T p2" and "dt p1 = dt p2" and "t_end p1 = t_end p2"
  shows "runSimulation p1 noise = runSimulation p2 noise"
proof -
  have "body p1 noise = body p2 noise"
    by (intro ext) (rule body_params_cong [OF assms(3-5)])
  then have "integrate p1 noise = integrate p2 noise"
    using assms(3-5) by (simp add: integrate_def for_loop_fold n_steps_def)
  with assms(3-5) show ?thesis
    by (simp add: runSimulation_def delta_U_def k_B_T_def n_steps_def)
qed

text \<open>The default parameters, and the same with no field and a coupling force of 1 N.\<close>

theorem run_ignores_field_and_coupling_witness:
  "valid_params default_params \<and> valid_params other_field_params
   \<and> B_field default_params \<noteq> B_field other_field_params
   \<and> F_mag default_params \<noteq> F_mag other_field_params
   \<and> runSimulation default_params no_noise = runSimulation other_field_params no_noise"
proof -
  have "T default_params = T other_field_params" "dt default_params = dt other_field_params"
    "t_end default_params = t_end other_field_params"
    by (simp_all add: default_params_def other_field_params_def)
  from run_ignores_field_and_coupling [OF valid_default valid_other_field this, of no_noise]
  have "runSimulation default_params no_noise = runSimulation other_field_params no_noise" .
  moreover have "B_field default_params \<noteq> B_field other_field_params"
    by (simp only: default_params_def other_field_params_def params.select_convs fl_50e6) simp
  moreover have "F_mag default_params \<noteq> F_mag other_field_params"
    by (simp only: default_params_def other_field_params_def params.select_convs fl_2e12) simp
  ultimately show ?thesis
    using valid_default valid_other_field by blast
qed

section \<open>The barrier ratio\<close>

lemma k_B_pos: "0 < k_B"
  by (simp add: k_B_value)

lemma k_B_T_eq_0_iff: "0 < T p \<Longrightarrow> k_B_T p = 0 \<longleftrightarrow> k_B * T p \<le> 1 / 2 ^ 1075"
  using k_B_pos by (simp add: k_B_T_def fl_eq_0_iff abs_mult)

text \<open>
  C7, as amended. For a temperature above zero, whatever the other parameters and the
  noise, the barrier metric of a returned result is \<open>delta_U / k_B_T\<close> with
  \<open>delta_U = 6 k_B_T\<close>, where \<open>k_B_T\<close> is the product of \<open>k_B\<close> and the temperature as
  a double. It is 6 when that product is not zero, which is when \<open>k_B T\<close> is above
  \<open>2\<^sup>-\<^sup>1\<^sup>0\<^sup>7\<^sup>5\<close>, for temperatures from about \<open>1.8 \<times> 10\<^sup>-\<^sup>3\<^sup>0\<^sup>1\<close> on. Below, the product
  underflows to zero and the metric is \<^verbatim>\<open>0/0\<close>, not a number.
\<close>

theorem barrier_ratio_without_underflow:
  assumes "0 < T p" and "runSimulation p noise = Some (Inr r)"
  shows "barrier (metrics r) = js_div (delta_U p) (k_B_T p)
    \<and> delta_U p = 6 * k_B_T p \<and> k_B_T p = fl (k_B * T p)
    \<and> (1 / 2 ^ 1075 < k_B * T p \<longrightarrow> barrier (metrics r) = Some 6)
    \<and> (k_B * T p \<le> 1 / 2 ^ 1075 \<longrightarrow> barrier (metrics r) = None)"
proof -
  have b: "barrier (metrics r) = js_div (delta_U p) (k_B_T p)"
    using assms(2) by (auto simp add: runSimulation_def Let_def split: if_splits)
  have "js_div (delta_U p) (k_B_T p) = Some 6" if "1 / 2 ^ 1075 < k_B * T p"
    using that k_B_T_eq_0_iff [OF assms(1)] by (simp add: js_div_def delta_U_def)
  moreover have "js_div (delta_U p) (k_B_T p) = None" if "k_B * T p \<le> 1 / 2 ^ 1075"
    using that k_B_T_eq_0_iff [OF assms(1)] by (simp add: js_div_def)
  ultimately show ?thesis
    using b by (simp add: delta_U_def k_B_T_def)
qed

text \<open>The default run returns a result, whose barrier metric is 6.\<close>

theorem barrier_ratio_without_underflow_witness:
  "0 < T default_params \<and> 1 / 2 ^ 1075 < k_B * T default_params
   \<and> barrier_of (runSimulation default_params no_noise) = Some (Some 6)"
proof -
  have pos: "0 < T default_params" and big: "1 / 2 ^ 1075 < k_B * T default_params"
    by (simp_all add: default_params_def k_B_value)
  obtain r where r: "runSimulation default_params no_noise = Some (Inr r)"
    using default_returns by blast
  from barrier_ratio_without_underflow [OF pos r] big
  have "barrier (metrics r) = Some 6" by blast
  with pos big r show ?thesis by (simp add: barrier_of_def)
qed

text \<open>
  C7, as stated, fails for the least temperature above zero of a double, with the other
  parameters at their defaults: the parameters are valid, \<^verbatim>\<open>k_B * params.T\<close> is zero, and
  the barrier metric of the result is \<^verbatim>\<open>0/0\<close>.
\<close>

theorem barrier_nan_on_underflow:
  "0 < T cold_params \<and> valid_params cold_params \<and> k_B_T cold_params = 0
   \<and> barrier_of (runSimulation cold_params no_noise) = Some None"
proof -
  obtain r where r: "runSimulation cold_params no_noise = Some (Inr r)"
    using cold_returns by blast
  then have "barrier (metrics r) = js_div (delta_U cold_params) (k_B_T cold_params)"
    by (auto simp add: runSimulation_def Let_def split: if_splits)
  then have "barrier (metrics r) = None"
    by (simp add: k_B_T_cold js_div_def)
  moreover have "0 < T cold_params"
    by (simp add: cold_params_def)
  ultimately show ?thesis
    using r valid_cold k_B_T_cold by (simp add: barrier_of_def)
qed

section \<open>The signal-to-noise ratio\<close>

lemma foldl_power_sum: "foldl (\<lambda>acc s. acc + power' s) v es = v + sum_list (map power' es)"
  by (induction es arbitrary: v) simp_all

text \<open>
  C8. The signal-to-noise ratio of a spectrum is the greatest of its \<^verbatim>\<open>power\<close> entries
  minus their arithmetic mean, and it is 0 for the empty spectrum.
\<close>

theorem snr_max_minus_mean:
  "calculateSNR [] = 0
   \<and> (spec \<noteq> [] \<longrightarrow>
        calculateSNR spec =
          Max (set (map power' spec)) - sum_list (map power' spec) / real (length spec))"
proof (cases spec)
  case Nil
  then show ?thesis by simp
next
  case (Cons e es)
  have "Max (set (map power' (e # es))) = fold max (map power' es) (power' e)"
    using Max.set_eq_fold [of "power' e" "map power' es"] by simp
  then show ?thesis
    using Cons by (simp add: foldl_power_sum Let_def)
qed

text \<open>A spectrum with the entries 1 and 3: the maximum 3 minus the mean 2.\<close>

theorem snr_max_minus_mean_witness:
  "[\<lparr>freq = 0, power' = 1\<rparr>, \<lparr>freq = 10, power' = 3\<rparr>] \<noteq> []
   \<and> calculateSNR [\<lparr>freq = 0, power' = 1\<rparr>, \<lparr>freq = 10, power' = 3\<rparr>] = 1"
  using snr_max_minus_mean [of "[\<lparr>freq = 0, power' = 1\<rparr>, \<lparr>freq = 10, power' = 3\<rparr>]"]
  by simp

section \<open>The histogram\<close>

lemma those_map_Some: "those (map Some vs) = Some vs"
  by (induction vs) simp_all

lemma binned_iff: "binned val \<longleftrightarrow> - 2 \<le> val \<and> val < 2"
proof -
  have "(val - x_min) / bin_width = (val + 2) * 25 / 2"
    by (simp add: x_min_def x_max_def bin_width_def hist_bins_def)
  then have "bin_of val = \<lfloor>(val + 2) * 25 / 2\<rfloor>"
    by (simp only: bin_of_def)
  then show ?thesis
    unfolding binned_def hist_bins_def
    by (auto simp add: floor_less_iff zero_le_floor)
qed

lemma length_count_sample: "length (count_sample val h) = length h"
  by (simp add: count_sample_def Let_def)

lemma sum_list_count_sample:
  "length h = hist_bins \<Longrightarrow>
   sum_list (count_sample val h) = sum_list h + (if binned val then 1 else 0)"
  by (auto simp add: count_sample_def Let_def binned_def sum_list_update)

lemma sum_list_fold_count_sample:
  "length h = hist_bins \<Longrightarrow>
   sum_list (fold count_sample traj h) = sum_list h + length (filter binned traj)"
proof (induction traj arbitrary: h)
  case Nil
  then show ?case by simp
next
  case (Cons val traj)
  have "length (count_sample val h) = hist_bins"
    using Cons.prems by (simp add: length_count_sample)
  from Cons.IH [OF this] show ?case
    by (simp add: sum_list_count_sample [OF Cons.prems])
qed

lemma sum_list_histogram: "sum_list (histogram traj) = length (filter binned traj)"
  by (simp add: histogram_def sum_list_fold_count_sample)

lemma density_hist_data:
  "map density (hist_data traj) =
     map (\<lambda>c. map_option (\<lambda>q. q / bin_width) (js_div (real c) (real (length traj))))
       (histogram traj)"
proof -
  let ?h = "\<lambda>c. map_option (\<lambda>q. q / bin_width) (js_div (real c) (real (length traj)))"
  have "map density (hist_data traj) =
          map (?h \<circ> fst) (zip (histogram traj) [0..<length (histogram traj)])"
    by (simp add: hist_data_def comp_def case_prod_beta)
  also have "\<dots> = map ?h (map fst (zip (histogram traj) [0..<length (histogram traj)]))"
    by (simp only: map_map)
  also have "\<dots> = map ?h (histogram traj)"
    by simp
  finally show ?thesis .
qed

lemma sum_list_density:
  assumes "n \<noteq> 0"
  shows "sum_list (map (\<lambda>d. d * bin_width) (map (\<lambda>c. real c / n / bin_width) cs)) =
     real (sum_list cs) / n"
proof -
  have "bin_width \<noteq> 0"
    by (simp add: bin_width_def x_max_def x_min_def hist_bins_def)
  then show ?thesis
    by (induction cs) (simp_all add: add_divide_distrib)
qed

lemma density_mass_hist_data:
  assumes "traj \<noteq> []"
  shows "density_mass (hist_data traj) =
     Some (real (length (filter binned traj)) / real (length traj))"
proof -
  have n: "real (length traj) \<noteq> 0" using assms by simp
  have d: "map density (hist_data traj) =
          map Some (map (\<lambda>c. real c / real (length traj) / bin_width) (histogram traj))"
    using n by (simp add: density_hist_data js_div_def)
  show ?thesis
    by (simp only: density_mass_def d those_map_Some option.map sum_list_density [OF n]
        sum_list_histogram)
qed

text \<open>
  C5, as amended. For a trajectory that is not empty, the sum over the bins of density
  times bin width is the number of samples counted over the number of samples, where a
  sample whose bin index \<open>\<lfloor>(value + 2) / bin_width\<rfloor>\<close> is outside \<open>[0, 50)\<close> is not
  counted; and the sum is 1 exactly when every sample is in the half-open interval
  from \<open>- 2\<close> to \<open>2\<close>, \<open>2\<close> excluded.
\<close>

theorem histogram_normalisation:
  assumes "traj \<noteq> []"
  shows "density_mass (hist_data traj) =
      Some (real (length (filter (\<lambda>v. 0 \<le> \<lfloor>(v + 2) / bin_width\<rfloor> \<and> \<lfloor>(v + 2) / bin_width\<rfloor> < 50) traj))
            / real (length traj))
    \<and> (density_mass (hist_data traj) = Some 1 \<longleftrightarrow> (\<forall>v \<in> set traj. - 2 \<le> v \<and> v < 2))"
proof -
  have b: "binned = (\<lambda>v. 0 \<le> \<lfloor>(v + 2) / bin_width\<rfloor> \<and> \<lfloor>(v + 2) / bin_width\<rfloor> < 50)"
    by (rule ext) (simp add: binned_def bin_of_def x_min_def hist_bins_def)
  have "length (filter binned traj) = length traj \<longleftrightarrow> (\<forall>v \<in> set traj. binned v)"
    by (metis filter_id_conv length_filter_less less_irrefl)
  then have "real (length (filter binned traj)) / real (length traj) = 1
      \<longleftrightarrow> (\<forall>v \<in> set traj. - 2 \<le> v \<and> v < 2)"
    using assms by (auto simp add: binned_iff)
  then show ?thesis
    using density_mass_hist_data [OF assms] by (simp add: b)
qed

text \<open>Of the two samples \<open>1/2\<close> and \<open>3\<close>, one is counted.\<close>

theorem histogram_normalisation_witness:
  "[1 / 2, 3] \<noteq> ([] :: real list) \<and> density_mass (hist_data [1 / 2, 3]) = Some (1 / 2)"
proof -
  have "filter binned [1 / 2, 3] = [1 / 2]"
    by (simp add: binned_iff)
  moreover have "binned = (\<lambda>v. 0 \<le> \<lfloor>(v + 2) / bin_width\<rfloor> \<and> \<lfloor>(v + 2) / bin_width\<rfloor> < 50)"
    by (rule ext) (simp add: binned_def bin_of_def x_min_def hist_bins_def)
  ultimately show ?thesis
    using histogram_normalisation [of "[1 / 2, 3]"] by simp
qed

text \<open>
  C5, as stated, fails for a sample at the upper edge: the one sample \<open>2\<close> is not
  outside \<open>[- 2, 2]\<close>, its bin index is 50, it is not counted, and the sum is 0.
\<close>

theorem histogram_edge_sample_dropped:
  "- 2 \<le> (2 :: real) \<and> (2 :: real) \<le> 2 \<and> bin_of 2 = 50 \<and> density_mass (hist_data [2]) = Some 0"
proof -
  have "bin_of 2 = 50"
    by (simp add: bin_of_def x_min_def x_max_def bin_width_def hist_bins_def)
  then show ?thesis
    using density_mass_hist_data [of "[2]"] by (simp add: binned_iff)
qed

section \<open>The power spectrum\<close>

lemma fold_re_im:
  "fold (\<lambda>n (re, im). (re + f n, im - g n)) ns (r0 :: real, i0 :: real) =
     (r0 + sum_list (map f ns), i0 - sum_list (map g ns))"
  by (induction ns arbitrary: r0 i0) (simp_all add: algebra_simps)

lemma dft_sums_eq:
  "dft_sums data k =
     (\<Sum>n<length data. data ! n * cos (2 * pi * real k * real n / real (length data)),
      - (\<Sum>n<length data. data ! n * sin (2 * pi * real k * real n / real (length data))))"
proof -
  have "dft_sums data k =
     fold (\<lambda>n (re, im). (re + data ! n * cos (2 * pi * real k * real n / real (length data)),
                           im - data ! n * sin (2 * pi * real k * real n / real (length data))))
       [0..<length data] (0, 0)"
    by (simp add: dft_sums_def Let_def)
  then show ?thesis
    by (simp only: fold_re_im interv_sum_list_conv_sum_set_nat atLeast_upt [symmetric]) simp
qed

lemma spectrum_entry_at_spec: "spectrum_entry_at data k = spectrum_entry_spec data k"
  by (simp add: spectrum_entry_at_def spectrum_entry_spec_def dft_sums_eq power2_eq_square)

lemma spectrum_loop_map:
  "k \<le> (length data + 1) div 2 \<Longrightarrow>
   spectrum_loop data k acc = acc @ map (spectrum_entry_at data) [k..<(length data + 1) div 2]"
proof (induction data k acc rule: spectrum_loop.induct)
  case (1 data k acc)
  show ?case
  proof (cases "real k < real (length data) / 2")
    case True
    then have lt: "k < (length data + 1) div 2" by linarith
    then have "[k..<(length data + 1) div 2] = k # [Suc k..<(length data + 1) div 2]"
      by (simp add: upt_conv_Cons)
    moreover have "spectrum_loop data (Suc k) (acc @ [spectrum_entry_at data k]) =
       (acc @ [spectrum_entry_at data k])
       @ map (spectrum_entry_at data) [Suc k..<(length data + 1) div 2]"
      using True lt by (intro "1.IH") simp_all
    ultimately show ?thesis
      using True by (simp add: spectrum_loop.simps [of data k acc])
  next
    case False
    then have "(length data + 1) div 2 \<le> k" by linarith
    with "1.prems" False show ?thesis
      by (simp add: spectrum_loop.simps [of data k acc])
  qed
qed

lemma computeSimplePowerSpectrum_eq:
  "computeSimplePowerSpectrum data =
     take 100 (map (spectrum_entry_spec data) [0..<(length data + 1) div 2])"
  by (simp add: computeSimplePowerSpectrum_def spectrum_loop_map spectrum_entry_at_spec [abs_def])

text \<open>
  C4, as amended. The spectrum of a run is computed on the window of the first
  \<open>N = min 1024 L\<close> samples of its trajectory of length \<open>L\<close>. For every window, it has the
  entry (\<open>10 k\<close>, \<open>log\<^sub>1\<^sub>0 (((\<Sum> data[n] cos (2 \<pi> k n / N))\<^sup>2 + (\<Sum> data[n] sin (2 \<pi> k n / N))\<^sup>2) / N\<^sup>2 + 10\<^sup>-\<^sup>1\<^sup>0)\<close>)
  for each index \<open>k\<close> with \<open>k < N / 2\<close> as a quotient of numbers, that is for \<open>k\<close> from 0
  to \<open>(N + 1) div 2 - 1\<close>, cut to its first 100 entries.
\<close>

theorem power_spectrum_entries:
  "computeSimplePowerSpectrum (take (min 1024 (length traj)) traj) =
     take 100 (map (spectrum_entry_spec (take (min 1024 (length traj)) traj))
                 [0..<(min 1024 (length traj) + 1) div 2])
   \<and> (runSimulation p noise = Some (Inr r) \<longrightarrow>
        spectrum r =
          computeSimplePowerSpectrum
            (take (min 1024 (length (trajectory (integrate p noise))))
               (trajectory (integrate p noise))))"
proof -
  have "length (take (min 1024 (length traj)) traj) = min 1024 (length traj)"
    by simp
  then have "computeSimplePowerSpectrum (take (min 1024 (length traj)) traj) =
     take 100 (map (spectrum_entry_spec (take (min 1024 (length traj)) traj))
                 [0..<(min 1024 (length traj) + 1) div 2])"
    using computeSimplePowerSpectrum_eq [of "take (min 1024 (length traj)) traj"]
    by (simp only:)
  then show ?thesis
    by (auto simp add: runSimulation_def Let_def split: if_splits)
qed

text \<open>
  The window of the one sample 1 has the one entry of index 0, and the default run
  returns the spectrum of the window of its trajectory.
\<close>

theorem power_spectrum_entries_witness:
  "computeSimplePowerSpectrum [1] = [\<lparr>freq = 0, power' = log 10 (1 + 1 / 10 ^ 10)\<rparr>]
   \<and> (\<exists>r. runSimulation default_params no_noise = Some (Inr r)
          \<and> spectrum r =
              computeSimplePowerSpectrum
                (take (min 1024 (length (trajectory (integrate default_params no_noise))))
                   (trajectory (integrate default_params no_noise))))"
proof -
  obtain r where r: "runSimulation default_params no_noise = Some (Inr r)"
    using default_returns by blast
  have "computeSimplePowerSpectrum [1] = [\<lparr>freq = 0, power' = log 10 (1 + 1 / 10 ^ 10)\<rparr>]"
    using power_spectrum_entries [of "[1]" default_params no_noise r]
    by (simp add: spectrum_entry_spec_def)
  with r power_spectrum_entries [of "[1]" default_params no_noise r] show ?thesis
    by blast
qed

text \<open>
  C4, as stated, has the indices from 0 to \<open>N div 2 - 1\<close>. For the window of the one
  sample 1 that is no index at all, where the loop runs for \<open>k = 0\<close>, since
  \<open>0 < 1 / 2\<close>, and returns one entry.
\<close>

theorem power_spectrum_odd_window:
  "length (computeSimplePowerSpectrum [1]) = 1
   \<and> take 100 (map (spectrum_entry_spec [1]) [0..<length [1 :: real] div 2]) = []"
  by (simp add: computeSimplePowerSpectrum_eq)

section \<open>Parameters that the specification calls invalid\<close>

lemma histogram_Nil: "histogram [] = replicate hist_bins 0"
  by (simp add: histogram_def)

lemma hist_data_Nil:
  "hist_data [] =
     map (\<lambda>i. \<lparr>bin_x = x_min + (real i + 0.5) * bin_width, density = None\<rparr>) [0..<hist_bins]"
proof -
  have "zip (replicate hist_bins (0::nat)) [0..<hist_bins] = map (\<lambda>i. (0, i)) [0..<hist_bins]"
    by (simp add: zip_replicate1)
  then show ?thesis
    by (simp add: hist_data_def histogram_Nil js_div_def)
qed

lemma spectrum_Nil: "computeSimplePowerSpectrum [] = []"
  by (simp add: computeSimplePowerSpectrum_def spectrum_loop.simps)

lemma runSimulation_zero_steps:
  assumes "dt p \<noteq> 0 \<or> t_end p \<le> 0" and "n_steps p \<le> 0"
  shows "runSimulation p noise = Some (Inr (zero_step_results p))"
proof -
  have "\<not> ((dt p = 0 \<and> 0 < t_end p) \<or> 2 ^ 53 < n_steps p)" using assms by auto
  then show ?thesis
    by (simp add: runSimulation_def integrate_no_steps [OF assms(2)] init_state_def
        spectrum_Nil hist_data_Nil mean_x_def std_dev_def variance_def js_div_def
        zero_step_results_def)
qed

text \<open>
  C1, as amended. \<^verbatim>\<open>runSimulation\<close> checks no parameter and raises no
  \<open>InvalidParameter\<close>, whatever the parameters. When \<open>\<lfloor>t_end / dt\<rfloor>\<close> is zero or less (and
  the loop ends), and in particular when the total time is 0, it runs no iteration and
  returns a result all the same: no sample, an empty spectrum, a switch count of 0, a
  signal-to-noise ratio of 0, and a mean, a deviation and densities that are not numbers.
\<close>

theorem runSimulation_no_validation:
  "runSimulation p noise \<noteq> Some (Inl InvalidParameter)
   \<and> ((dt p \<noteq> 0 \<or> t_end p \<le> 0) \<and> n_steps p \<le> 0 \<longrightarrow>
        runSimulation p noise = Some (Inr (zero_step_results p)))
   \<and> (t_end p = 0 \<longrightarrow> runSimulation p noise = Some (Inr (zero_step_results p)))"
proof -
  have "runSimulation p noise \<noteq> Some (Inl InvalidParameter)"
    by (simp add: runSimulation_def Let_def)
  moreover have "t_end p = 0 \<Longrightarrow> n_steps p \<le> 0"
    by (simp add: n_steps_def fl_0)
  ultimately show ?thesis
    using runSimulation_zero_steps [of p noise] by auto
qed

text \<open>The default parameters with a total time of 0.\<close>

theorem runSimulation_no_validation_witness:
  "t_end zero_time_params = 0
   \<and> runSimulation zero_time_params no_noise = Some (Inr (zero_step_results zero_time_params))"
proof -
  have "t_end zero_time_params = 0"
    by (simp add: zero_time_params_def)
  with runSimulation_no_validation [of zero_time_params no_noise] show ?thesis
    by blast
qed

text \<open>
  C1, as stated, fails for a total time of 0 with the other parameters at their
  defaults: the run does not raise, it returns the result of a run without iterations.
\<close>

theorem zero_time_returns_result:
  "t_end zero_time_params \<le> 0
   \<and> runSimulation zero_time_params no_noise = Some (Inr (zero_step_results zero_time_params))
   \<and> runSimulation zero_time_params no_noise \<noteq> Some (Inl InvalidParameter)"
proof -
  have "n_steps zero_time_params \<le> 0"
    by (simp add: n_steps_zero_time)
  moreover have "t_end zero_time_params \<le> 0"
    by (simp add: zero_time_params_def)
  moreover have "dt zero_time_params \<noteq> 0"
    using dt_positive(3) by simp
  ultimately show ?thesis
    using runSimulation_zero_steps [of zero_time_params no_noise] by simp
qed

end
